theory Spec2Isabelle
  imports Main
begin

section \<open>The PowerClash runtime module\<close>

text \<open>
  A shallow embedding of the runtime module \<^verbatim>\<open>PowerClash\<close> of
  \<^verbatim>\<open>src/apps/web/games/pc/features/startGame.ts\<close> (the second document of that file,
  lines 70-336): a two-player commit-reveal game over five moves, written against o1js
  (\<^verbatim>\<open>Field\<close>, \<^verbatim>\<open>Bool\<close>, \<^verbatim>\<open>UInt64\<close>, \<^verbatim>\<open>PublicKey\<close>,
  \<^verbatim>\<open>Provable\<close>, \<^verbatim>\<open>Poseidon\<close>) and the proto-kit runtime
  (\<^verbatim>\<open>StateMap\<close>, \<^verbatim>\<open>assert\<close>).
\<close>

subsection \<open>o1js values\<close>

text \<open>
  A \<^verbatim>\<open>Field\<close> is an element of the Pallas base field, kept as its canonical
  representative in \<open>[0, Field_ORDER)\<close>. \<^verbatim>\<open>Field(n)\<close> reduces the integer \<open>n\<close>, so
  \<^verbatim>\<open>Field(-1)\<close> is \<open>Field_ORDER - 1\<close>.
\<close>

definition Field_ORDER :: int where
  "Field_ORDER = 28948022309329048855892746252171976963363056481941560715954676764349967630337"

definition Field_from :: "int \<Rightarrow> int" where
  "Field_from n = n mod Field_ORDER"

definition Field_add :: "int \<Rightarrow> int \<Rightarrow> int" where
  "Field_add a b = (a + b) mod Field_ORDER"

text \<open>
  An o1js \<^verbatim>\<open>Bool\<close> is an object that wraps a boolean; \<^verbatim>\<open>toBoolean()\<close> reads it.
  \<^verbatim>\<open>equals\<close>, \<^verbatim>\<open>lessThanOrEqual\<close> and \<^verbatim>\<open>greaterThan\<close> of o1js return such
  objects, which \<^verbatim>\<open>Bool.or\<close>, \<^verbatim>\<open>Bool.and\<close>, \<^verbatim>\<open>Provable.if\<close> and
  \<^verbatim>\<open>assert\<close> consume.
\<close>

datatype Bool = Bool (toBoolean: bool)

definition Bool_or :: "Bool \<Rightarrow> Bool \<Rightarrow> Bool" where
  "Bool_or a b = Bool (toBoolean a \<or> toBoolean b)"

definition Bool_and :: "Bool \<Rightarrow> Bool \<Rightarrow> Bool" where
  "Bool_and a b = Bool (toBoolean a \<and> toBoolean b)"

definition Bool_equals :: "Bool \<Rightarrow> Bool \<Rightarrow> Bool" where
  "Bool_equals a b = Bool (toBoolean a = toBoolean b)"

definition Provable_if :: "Bool \<Rightarrow> 'a \<Rightarrow> 'a \<Rightarrow> 'a" where
  "Provable_if c a b = (if toBoolean c then a else b)"

definition Field_equals :: "int \<Rightarrow> int \<Rightarrow> Bool" where
  "Field_equals a b = Bool (a = b)"

text \<open>A \<^verbatim>\<open>PublicKey\<close> is a curve point in compressed form; the empty key is all zero.\<close>

datatype PublicKey = PublicKey (pk_x: int) (pk_isOdd: bool)

definition PublicKey_empty :: PublicKey where
  "PublicKey_empty = PublicKey 0 False"

definition PublicKey_equals :: "PublicKey \<Rightarrow> PublicKey \<Rightarrow> Bool" where
  "PublicKey_equals a b = Bool (a = b)"

subsection \<open>The winner of a round\<close>

text \<open>
  \<^verbatim>\<open>determineWinner\<close> (lines 254-271): the disjunction of the five rows of the table, then
  the two nested \<^verbatim>\<open>Provable.if\<close>.
\<close>

definition determineWinner :: "int \<Rightarrow> int \<Rightarrow> PublicKey \<Rightarrow> PublicKey \<Rightarrow> PublicKey" where
  "determineWinner move1 move2 pk1 pk2 =
    (let p1Wins = Bool_or
        (Bool_and (Field_equals move1 (Field_from 0))
           (Bool_or (Field_equals move2 (Field_from 2)) (Field_equals move2 (Field_from 3))))
        (Bool_or
          (Bool_and (Field_equals move1 (Field_from 1))
             (Bool_or (Field_equals move2 (Field_from 0)) (Field_equals move2 (Field_from 4))))
          (Bool_or
            (Bool_and (Field_equals move1 (Field_from 2))
               (Bool_or (Field_equals move2 (Field_from 1)) (Field_equals move2 (Field_from 3))))
            (Bool_or
              (Bool_and (Field_equals move1 (Field_from 3))
                 (Bool_or (Field_equals move2 (Field_from 1)) (Field_equals move2 (Field_from 4))))
              (Bool_and (Field_equals move1 (Field_from 4))
                 (Bool_or (Field_equals move2 (Field_from 0)) (Field_equals move2 (Field_from 2)))))))
     in Provable_if p1Wins pk1
          (Provable_if (Field_equals move1 move2) PublicKey_empty pk2))"

subsection \<open>JavaScript conditionals on Bool objects\<close>

text \<open>
  The module also tests \<^verbatim>\<open>Bool\<close> objects with the JavaScript operators \<^verbatim>\<open>if\<close>,
  \<^verbatim>\<open>!\<close>, \<^verbatim>\<open>||\<close> and \<^verbatim>\<open>&&\<close> (lines 141, 146, 171, 177, 187, 190-200, 278, 315).
  JavaScript converts the operand to a boolean, and every object converts to \<^verbatim>\<open>true\<close>,
  whatever it wraps: \<^verbatim>\<open>if (b)\<close> takes its first branch, \<^verbatim>\<open>!b\<close> is \<^verbatim>\<open>false\<close>
  and \<^verbatim>\<open>a || b\<close> is \<^verbatim>\<open>a\<close>. Only \<^verbatim>\<open>Provable.if\<close>, \<^verbatim>\<open>Bool.or\<close>,
  \<^verbatim>\<open>Bool.and\<close> and \<^verbatim>\<open>assert\<close> read the wrapped boolean.
\<close>

definition js_truthy :: "Bool \<Rightarrow> bool" where
  "js_truthy b = True"

definition js_not :: "Bool \<Rightarrow> bool" where
  "js_not b = (if js_truthy b then False else True)"

definition js_or :: "Bool \<Rightarrow> Bool \<Rightarrow> Bool" where
  "js_or a b = (if js_truthy a then a else b)"

subsection \<open>Errors\<close>

text \<open>
  A failed \<^verbatim>\<open>assert\<close> of proto-kit does not stop the method: it records the failure,
  with the message of the first assertion that failed, and the method runs on; at its end
  the transaction has failed and none of its state changes is applied. The range check of
  \<^verbatim>\<open>UInt64.add\<close> and \<^verbatim>\<open>UInt64.mul\<close> (the result must fit 64 bits) throws, which
  ends the method at once, whatever was recorded before.

  In \<^verbatim>\<open>commitMove\<close> and \<^verbatim>\<open>revealMove\<close> nothing that runs after a failed assertion
  can throw, so their result is the first failed assertion: \<open>asserting\<close> returns it and
  skips the rest. In \<^verbatim>\<open>claimTimeoutVictory\<close> the sum of line 232 is computed after
  the assertion of line 228, so there the recorded failure is carried along
  (\<open>assert_recording\<close>) and only decides the result at the end.
\<close>

datatype error =
    GameFinished
  | NotAParticipant
  | CommitWindowClosed
  | RevealWindowClosed
  | RevealMismatch
  | OpponentNotTimedOut
  | UInt64Overflow

fun message :: "error \<Rightarrow> string" where
  "message GameFinished = ''Game already finished''"
| "message NotAParticipant = ''You are not a player in this game''"
| "message CommitWindowClosed = ''Commitment period has ended''"
| "message RevealWindowClosed = ''Reveal period has ended''"
| "message RevealMismatch = ''Revealed move does not match commitment''"
| "message OpponentNotTimedOut = ''Opponent has not timed out yet''"
| "message UInt64Overflow = ''UInt64 range check''"

definition asserting :: "Bool \<Rightarrow> error \<Rightarrow> error + 'a \<Rightarrow> error + 'a" where
  "asserting c e rest = (if toBoolean c then rest else Inl e)"

definition assert_recording :: "Bool \<Rightarrow> error \<Rightarrow> error option \<Rightarrow> error option" where
  "assert_recording c e recorded =
     (if toBoolean c then recorded
      else (case recorded of None \<Rightarrow> Some e | Some first \<Rightarrow> Some first))"

definition and_then :: "error + 'a \<Rightarrow> ('a \<Rightarrow> error + 'b) \<Rightarrow> error + 'b" where
  "and_then r f = (case r of Inl e \<Rightarrow> Inl e | Inr v \<Rightarrow> f v)"

subsection \<open>UInt64\<close>

definition UInt64_add :: "nat \<Rightarrow> nat \<Rightarrow> error + nat" where
  "UInt64_add a b = (if a + b < 2 ^ 64 then Inr (a + b) else Inl UInt64Overflow)"

definition UInt64_mul :: "nat \<Rightarrow> nat \<Rightarrow> error + nat" where
  "UInt64_mul a b = (if a * b < 2 ^ 64 then Inr (a * b) else Inl UInt64Overflow)"

definition UInt64_lessThanOrEqual :: "nat \<Rightarrow> nat \<Rightarrow> Bool" where
  "UInt64_lessThanOrEqual a b = Bool (a \<le> b)"

definition UInt64_greaterThan :: "nat \<Rightarrow> nat \<Rightarrow> Bool" where
  "UInt64_greaterThan a b = Bool (b < a)"

subsection \<open>Game configuration and records\<close>

definition ROUNDS_TO_WIN :: int where
  "ROUNDS_TO_WIN = 2"

definition MOVE_TIME_LIMIT :: nat where
  "MOVE_TIME_LIMIT = 50"

record RPSLSMove =
  move :: int
  salt :: int

record Game =
  game_id :: nat
  player1 :: PublicKey
  player2 :: PublicKey
  player1Commitment :: int
  player2Commitment :: int
  player1Move :: RPSLSMove
  player2Move :: RPSLSMove
  player1Wins :: int
  player2Wins :: int
  commitmentDeadline :: nat
  revealDeadline :: nat
  gameWinner :: PublicKey
  lastMoveBlockHeight :: nat

text \<open>The move of a slot in which nothing is revealed: \<^verbatim>\<open>{ move: Field(-1), salt: Field(0) }\<close>.\<close>

definition unset_move :: RPSLSMove where
  "unset_move = \<lparr>move = Field_from (- 1), salt = Field_from 0\<rparr>"

subsection \<open>The state of the runtime\<close>

text \<open>
  The matchmaking base class \<^verbatim>\<open>MatchMaker\<close> is not among the sources. Its two state maps
  that the module writes (\<^verbatim>\<open>activeGameId\<close>, \<^verbatim>\<open>gameFund\<close>) are maps of the state; its
  methods \<^verbatim>\<open>acquireFunds\<close> and \<^verbatim>\<open>_onLobbyEnd\<close> are recorded as calls, with their
  arguments, in the order made.
\<close>

datatype call =
    AcquireFunds nat PublicKey PublicKey nat nat nat
  | OnLobbyEnd nat Bool

record world =
  games :: "nat \<rightharpoonup> Game"
  gameFund :: "nat \<rightharpoonup> nat"
  activeGameId :: "PublicKey \<rightharpoonup> nat"
  calls :: "call list"

text \<open>
  \<^verbatim>\<open>(await this.games.get(gameId)).value\<close>: the stored record, or for a key never
  written the record whose fields are all zero.
\<close>

definition Game_dummy :: Game where
  "Game_dummy = \<lparr>game_id = 0, player1 = PublicKey 0 False, player2 = PublicKey 0 False,
     player1Commitment = 0, player2Commitment = 0,
     player1Move = \<lparr>move = 0, salt = 0\<rparr>, player2Move = \<lparr>move = 0, salt = 0\<rparr>,
     player1Wins = 0, player2Wins = 0, commitmentDeadline = 0, revealDeadline = 0,
     gameWinner = PublicKey 0 False, lastMoveBlockHeight = 0\<rparr>"

definition games_get :: "world \<Rightarrow> nat \<Rightarrow> Game" where
  "games_get w gameId = (case games w gameId of None \<Rightarrow> Game_dummy | Some g \<Rightarrow> g)"

definition games_set :: "world \<Rightarrow> nat \<Rightarrow> Game \<Rightarrow> world" where
  "games_set w gameId g = w\<lparr>games := (games w)(gameId \<mapsto> g)\<rparr>"

definition gameFund_set :: "world \<Rightarrow> nat \<Rightarrow> nat \<Rightarrow> world" where
  "gameFund_set w gameId v = w\<lparr>gameFund := (gameFund w)(gameId \<mapsto> v)\<rparr>"

definition activeGameId_set :: "world \<Rightarrow> PublicKey \<Rightarrow> nat \<Rightarrow> world" where
  "activeGameId_set w pk v = w\<lparr>activeGameId := (activeGameId w)(pk \<mapsto> v)\<rparr>"

definition acquireFunds ::
  "world \<Rightarrow> nat \<Rightarrow> PublicKey \<Rightarrow> PublicKey \<Rightarrow> nat \<Rightarrow> nat \<Rightarrow> nat \<Rightarrow> world" where
  "acquireFunds w gameId pk1 pk2 share1 share2 drawShare =
     w\<lparr>calls := calls w @ [AcquireFunds gameId pk1 pk2 share1 share2 drawShare]\<rparr>"

definition onLobbyEnd :: "world \<Rightarrow> nat \<Rightarrow> Bool \<Rightarrow> world" where
  "onLobbyEnd w gameId b = w\<lparr>calls := calls w @ [OnLobbyEnd gameId b]\<rparr>"

text \<open>
  A transaction that fails leaves the state as it was; one that succeeds leaves the state
  it returns.
\<close>

definition world_after :: "world \<Rightarrow> error + (world \<times> 'a) \<Rightarrow> world" where
  "world_after w r = (case r of Inl e \<Rightarrow> w | Inr (w', v) \<Rightarrow> w')"

subsection \<open>Settlement\<close>

text \<open>\<^verbatim>\<open>endGame\<close> (lines 277-288).\<close>

definition endGame :: "Game \<Rightarrow> world \<Rightarrow> world" where
  "endGame game w =
    (let w1 =
       (if js_truthy (PublicKey_equals (gameWinner game) PublicKey_empty)
        then acquireFunds w (game_id game) (player1 game) (player2 game) 1 1 0
        else
          (let loser = Provable_if (PublicKey_equals (gameWinner game) (player1 game))
                         (player2 game) (player1 game)
           in acquireFunds w (game_id game) (gameWinner game) loser 2 0 0));
         w2 = activeGameId_set w1 (player1 game) 0;
         w3 = activeGameId_set w2 (player2 game) 0
     in onLobbyEnd w3 (game_id game) (Bool True))"

subsection \<open>Committing\<close>

text \<open>
  \<^verbatim>\<open>commitMove\<close> (lines 135-156). \<open>height\<close> is \<^verbatim>\<open>this.network.block.height\<close> and
  \<open>sender\<close> is \<^verbatim>\<open>this.transaction.sender.value\<close>.
\<close>

definition commitMove ::
  "nat \<Rightarrow> PublicKey \<Rightarrow> world \<Rightarrow> nat \<Rightarrow> int \<Rightarrow> error + (world \<times> Game)" where
  "commitMove height sender w gameId commitment =
    (let game = games_get w gameId in
     asserting (PublicKey_equals (gameWinner game) PublicKey_empty) GameFinished
    (asserting (js_or (PublicKey_equals sender (player1 game))
                      (PublicKey_equals sender (player2 game))) NotAParticipant
    (asserting (UInt64_lessThanOrEqual height (commitmentDeadline game)) CommitWindowClosed
    (let game1 =
       (if js_truthy (PublicKey_equals sender (player1 game))
        then game\<lparr>player1Commitment := commitment\<rparr>
        else game\<lparr>player2Commitment := commitment\<rparr>);
         game2 = game1\<lparr>lastMoveBlockHeight := height\<rparr>
     in Inr (games_set w gameId game2, game2)))))"

subsection \<open>Revealing\<close>

text \<open>
  The reset for the next round (lines 204-210): both commitments to \<^verbatim>\<open>Field(0)\<close>, both
  moves to the unset move, both deadlines from the current block height.
\<close>

definition revealMove_reset :: "nat \<Rightarrow> Game \<Rightarrow> error + Game" where
  "revealMove_reset height game =
     and_then (UInt64_add height MOVE_TIME_LIMIT) (\<lambda>cd.
     and_then (UInt64_mul MOVE_TIME_LIMIT 2) (\<lambda>twice.
     and_then (UInt64_add height twice) (\<lambda>rd.
       Inr (game\<lparr>player1Commitment := Field_from 0,
                 player2Commitment := Field_from 0,
                 player1Move := unset_move,
                 player2Move := unset_move,
                 commitmentDeadline := cd,
                 revealDeadline := rd\<rparr>))))"

text \<open>
  The body of the conditional of \<^verbatim>\<open>revealMove\<close> that resolves a round (lines 188-211):
  it returns the game, the state and the round winner.
\<close>

definition revealMove_round ::
  "nat \<Rightarrow> Game \<Rightarrow> world \<Rightarrow> error + (Game \<times> world \<times> PublicKey option)" where
  "revealMove_round height game w =
    (let roundWinner = determineWinner (move (player1Move game)) (move (player2Move game))
                         (player1 game) (player2 game);
         game1 =
           (if js_truthy (PublicKey_equals roundWinner (player1 game))
            then game\<lparr>player1Wins := Field_add (player1Wins game) 1\<rparr>
            else if js_truthy (PublicKey_equals roundWinner (player2 game))
            then game\<lparr>player2Wins := Field_add (player2Wins game) 1\<rparr>
            else game)
     in if js_truthy (Field_equals (player1Wins game1) (Field_from ROUNDS_TO_WIN))
        then (let game2 = game1\<lparr>gameWinner := player1 game1\<rparr>
              in Inr (game2, endGame game2 w, Some roundWinner))
        else if js_truthy (Field_equals (player2Wins game1) (Field_from ROUNDS_TO_WIN))
        then (let game2 = game1\<lparr>gameWinner := player2 game1\<rparr>
              in Inr (game2, endGame game2 w, Some roundWinner))
        else and_then (revealMove_reset height game1) (\<lambda>game2.
               Inr (game2, w, Some roundWinner)))"

text \<open>
  \<^verbatim>\<open>revealMove\<close> (lines 165-218). \<open>Poseidon_hash\<close> stands for \<^verbatim>\<open>Poseidon.hash\<close>,
  which is not among the sources. The third component of the result is
  \<^verbatim>\<open>roundWinner\<close>, \<open>None\<close> for \<^verbatim>\<open>null\<close>.
\<close>

definition revealMove ::
  "(int list \<Rightarrow> int) \<Rightarrow> nat \<Rightarrow> PublicKey \<Rightarrow> world \<Rightarrow> nat \<Rightarrow> RPSLSMove
     \<Rightarrow> error + (world \<times> Game \<times> PublicKey option)" where
  "revealMove Poseidon_hash height sender w gameId mv =
    (let game = games_get w gameId in
     asserting (PublicKey_equals (gameWinner game) PublicKey_empty) GameFinished
    (asserting (js_or (PublicKey_equals sender (player1 game))
                      (PublicKey_equals sender (player2 game))) NotAParticipant
    (asserting (UInt64_lessThanOrEqual height (revealDeadline game)) RevealWindowClosed
    (let commitment = Poseidon_hash [move mv, salt mv] in
     and_then
       (if js_truthy (PublicKey_equals sender (player1 game))
        then asserting (Field_equals commitment (player1Commitment game)) RevealMismatch
               (Inr (game\<lparr>player1Move := mv\<rparr>))
        else asserting (Field_equals commitment (player2Commitment game)) RevealMismatch
               (Inr (game\<lparr>player2Move := mv\<rparr>)))
       (\<lambda>game1.
     and_then
       (if js_not (Field_equals (move (player1Move game1)) (Field_from (- 1)))
           \<and> js_not (Field_equals (move (player2Move game1)) (Field_from (- 1)))
        then revealMove_round height game1 w
        else Inr (game1, w, None))
       (\<lambda>(game2, w2, roundWinner).
     (let game3 = game2\<lparr>lastMoveBlockHeight := height\<rparr>
      in Inr (games_set w2 gameId game3, game3, roundWinner))))))))"

subsection \<open>Claiming a timeout\<close>

text \<open>
  \<^verbatim>\<open>claimTimeoutVictory\<close> (lines 226-244). The assertion of line 228 is recorded; the
  sum of line 232 throws when it does not fit 64 bits; the assertion of lines 231-234 is
  recorded; the rest of the method runs, and its state is the result only if nothing was
  recorded.
\<close>

definition claimTimeoutVictory ::
  "nat \<Rightarrow> PublicKey \<Rightarrow> world \<Rightarrow> nat \<Rightarrow> error + (world \<times> Game)" where
  "claimTimeoutVictory height sender w gameId =
    (let game = games_get w gameId;
         recorded1 = assert_recording (PublicKey_equals (gameWinner game) PublicKey_empty)
                       GameFinished None;
         currentHeight = height
     in and_then (UInt64_add (lastMoveBlockHeight game) MOVE_TIME_LIMIT) (\<lambda>limit.
        (let recorded2 = assert_recording (UInt64_greaterThan currentHeight limit)
                           OpponentNotTimedOut recorded1;
             isPlayer1 = PublicKey_equals sender (player1 game);
             game1 = game\<lparr>gameWinner := Provable_if isPlayer1 (player1 game) (player2 game)\<rparr>;
             w1 = endGame game1 w
         in (case recorded2 of
               Some e \<Rightarrow> Inl e
             | None \<Rightarrow> Inr (games_set w1 gameId game1, game1)))))"

subsection \<open>Initialisation\<close>

text \<open>
  Modelled from the spec: the class \<^verbatim>\<open>Lobby\<close> of the matchmaking engine is not among the
  sources; a lobby hands over an id, two paired players and a participation fee.
\<close>

record Lobby =
  lobby_id :: nat
  players :: "PublicKey \<times> PublicKey"
  participationFee :: nat

text \<open>
  \<^verbatim>\<open>initGame\<close> (lines 296-323). \<open>super_initGame\<close> stands for the method of the base
  class that it overrides and calls first, which allocates the match id.
\<close>

definition initGame ::
  "(Lobby \<Rightarrow> Bool \<Rightarrow> world \<Rightarrow> error + (world \<times> nat)) \<Rightarrow> nat \<Rightarrow> world \<Rightarrow> Lobby \<Rightarrow> Bool
     \<Rightarrow> error + (world \<times> nat)" where
  "initGame super_initGame height w lobby shouldInit =
     and_then (super_initGame lobby shouldInit w) (\<lambda>(w0, gameId).
     and_then (UInt64_add height MOVE_TIME_LIMIT) (\<lambda>cd.
     and_then (UInt64_mul MOVE_TIME_LIMIT 2) (\<lambda>twice.
     and_then (UInt64_add height twice) (\<lambda>rd.
     (let game = \<lparr>game_id = gameId,
                   player1 = fst (players lobby),
                   player2 = snd (players lobby),
                   player1Commitment = Field_from 0,
                   player2Commitment = Field_from 0,
                   player1Move = unset_move,
                   player2Move = unset_move,
                   player1Wins = Field_from 0,
                   player2Wins = Field_from 0,
                   commitmentDeadline = cd,
                   revealDeadline = rd,
                   gameWinner = PublicKey_empty,
                   lastMoveBlockHeight = height\<rparr>
      in if js_truthy (Bool_equals shouldInit (Bool True))
         then and_then (UInt64_mul (participationFee lobby) 2) (\<lambda>fund.
                Inr (gameFund_set (games_set w0 gameId game) gameId fund, gameId))
         else Inr (w0, gameId))))))"

text \<open>\<^verbatim>\<open>getGameState\<close> (lines 331-333).\<close>

definition getGameState :: "world \<Rightarrow> nat \<Rightarrow> Game" where
  "getGameState w gameId = games_get w gameId"

subsection \<open>Transactions\<close>

text \<open>
  The three runtime methods that players call, as transactions with their block height
  and sender, applied in order to the state.
\<close>

datatype tx =
    CommitMove nat int
  | RevealMove nat RPSLSMove
  | ClaimTimeoutVictory nat

fun apply_tx :: "(int list \<Rightarrow> int) \<Rightarrow> world \<Rightarrow> nat \<times> PublicKey \<times> tx \<Rightarrow> world" where
  "apply_tx H w (height, sender, CommitMove gameId c) =
     world_after w (commitMove height sender w gameId c)"
| "apply_tx H w (height, sender, RevealMove gameId mv) =
     world_after w (revealMove H height sender w gameId mv)"
| "apply_tx H w (height, sender, ClaimTimeoutVictory gameId) =
     world_after w (claimTimeoutVictory height sender w gameId)"

definition apply_txs :: "(int list \<Rightarrow> int) \<Rightarrow> world \<Rightarrow> (nat \<times> PublicKey \<times> tx) list \<Rightarrow> world" where
  "apply_txs H w txs = foldl (apply_tx H) w txs"

subsection \<open>Example states\<close>

text \<open>
  Three keys, a lobby that pairs the first two for a fee of 5, the game that
  \<^verbatim>\<open>initGame\<close> builds from it at block height 100, and a state that holds one game
  under the id 1. \<open>example_super\<close> is a base-class \<^verbatim>\<open>initGame\<close> that returns the
  lobby's id.
\<close>

definition alice :: PublicKey where
  "alice = PublicKey 11 False"

definition bob :: PublicKey where
  "bob = PublicKey 22 True"

definition carol :: PublicKey where
  "carol = PublicKey 33 False"

definition example_lobby :: Lobby where
  "example_lobby = \<lparr>lobby_id = 1, players = (alice, bob), participationFee = 5\<rparr>"

definition example_super :: "Lobby \<Rightarrow> Bool \<Rightarrow> world \<Rightarrow> error + (world \<times> nat)" where
  "example_super lobby shouldInit w = Inr (w, lobby_id lobby)"

definition example_game :: Game where
  "example_game = \<lparr>game_id = 1, player1 = alice, player2 = bob,
     player1Commitment = 0, player2Commitment = 0,
     player1Move = unset_move, player2Move = unset_move,
     player1Wins = 0, player2Wins = 0, commitmentDeadline = 150, revealDeadline = 200,
     gameWinner = PublicKey_empty, lastMoveBlockHeight = 100\<rparr>"

definition no_games :: world where
  "no_games = \<lparr>games = Map.empty, gameFund = Map.empty, activeGameId = Map.empty, calls = []\<rparr>"

definition example_world :: "Game \<Rightarrow> world" where
  "example_world g = \<lparr>games = [1 \<mapsto> g], gameFund = [1 \<mapsto> 10],
     activeGameId = [alice \<mapsto> 1, bob \<mapsto> 1], calls = []\<rparr>"

text \<open>
  A game that begins 101 blocks before the last block height of \<^verbatim>\<open>UInt64\<close>: player 1
  commits at once, and reveals at the reveal deadline, which is that last height.
  \<open>sum_list\<close> stands for the hash.
\<close>

definition late_world :: world where
  "late_world =
     apply_txs sum_list
       (world_after no_games
          (initGame example_super 18446744073709551515 no_games example_lobby (Bool True)))
       [(18446744073709551515, alice, CommitMove 1 7),
        (18446744073709551615, alice, RevealMove 1 \<lparr>move = 0, salt = 7\<rparr>)]"

section \<open>Properties\<close>

subsection \<open>Field constants\<close>

lemma Field_from_small: "0 \<le> n \<Longrightarrow> n \<le> 4 \<Longrightarrow> Field_from n = n"
  by (simp add: Field_from_def Field_ORDER_def)

lemma determineWinner_table:
  assumes "0 \<le> m1" "m1 \<le> 4" "0 \<le> m2" "m2 \<le> 4"
  shows "determineWinner (Field_from m1) (Field_from m2) pk1 pk2 =
     (if m1 = m2 then PublicKey_empty
      else if (m1, m2) \<in> {(0,2),(0,3),(1,0),(1,4),(2,1),(2,3),(3,1),(3,4),(4,0),(4,2)} then pk1
      else pk2)"
proof -
  have c1: "m1 = 0 \<or> m1 = 1 \<or> m1 = 2 \<or> m1 = 3 \<or> m1 = 4" using assms by arith
  have c2: "m2 = 0 \<or> m2 = 1 \<or> m2 = 2 \<or> m2 = 3 \<or> m2 = 4" using assms by arith
  have f: "Field_from 0 = 0" "Field_from 1 = 1" "Field_from 2 = 2" "Field_from 3 = 3"
    "Field_from 4 = 4"
    by (simp_all add: Field_from_small)
  from c1 c2 show ?thesis
    by (elim disjE)
      (simp_all add: determineWinner_def f Bool_or_def Bool_and_def Field_equals_def
        Provable_if_def)
qed

text \<open>
  C1. For moves in \<open>{0..4}\<close>, \<^verbatim>\<open>determineWinner\<close> returns the empty key when the moves
  are equal, player 1 when the pair is one of the ten tabulated winning pairs, and player 2
  otherwise. For two distinct, non-empty players this means: a tie exactly when the moves
  are equal, player 1 exactly on the tabulated pairs, player 2 exactly on the others, and
  when the two moves are exchanged the other player wins, so every unordered pair of distinct
  moves has exactly one winner.
\<close>

theorem determineWinner_total:
  assumes "m1 \<in> {0..4}" and "m2 \<in> {0..4}"
  shows "determineWinner (Field_from m1) (Field_from m2) pk1 pk2 =
       (if m1 = m2 then PublicKey_empty
        else if (m1, m2) \<in> {(0,2),(0,3),(1,0),(1,4),(2,1),(2,3),(3,1),(3,4),(4,0),(4,2)} then pk1
        else pk2)
     \<and> (pk1 \<noteq> PublicKey_empty \<and> pk2 \<noteq> PublicKey_empty \<and> pk1 \<noteq> pk2 \<longrightarrow>
         (determineWinner (Field_from m1) (Field_from m2) pk1 pk2 = PublicKey_empty
            \<longleftrightarrow> m1 = m2)
       \<and> (m1 \<noteq> m2 \<longrightarrow>
           (determineWinner (Field_from m1) (Field_from m2) pk1 pk2 = pk1
              \<longleftrightarrow> (m1, m2) \<in> {(0,2),(0,3),(1,0),(1,4),(2,1),(2,3),(3,1),(3,4),(4,0),(4,2)})
         \<and> (determineWinner (Field_from m1) (Field_from m2) pk1 pk2 = pk2
              \<longleftrightarrow> (m1, m2) \<notin> {(0,2),(0,3),(1,0),(1,4),(2,1),(2,3),(3,1),(3,4),(4,0),(4,2)})
         \<and> (determineWinner (Field_from m1) (Field_from m2) pk1 pk2 = pk1
              \<longleftrightarrow> determineWinner (Field_from m2) (Field_from m1) pk1 pk2 = pk2)))"
proof -
  have r1: "0 \<le> m1" "m1 \<le> 4" and r2: "0 \<le> m2" "m2 \<le> 4"
    using assms by simp_all
  have c1: "m1 = 0 \<or> m1 = 1 \<or> m1 = 2 \<or> m1 = 3 \<or> m1 = 4" using r1 by arith
  have c2: "m2 = 0 \<or> m2 = 1 \<or> m2 = 2 \<or> m2 = 3 \<or> m2 = 4" using r2 by arith
  note t12 = determineWinner_table [OF r1 r2, of pk1 pk2]
  note t21 = determineWinner_table [OF r2 r1, of pk1 pk2]
  have swap: "m1 \<noteq> m2 \<Longrightarrow>
      ((m1, m2) \<in> {(0,2),(0,3),(1,0),(1,4),(2,1),(2,3),(3,1),(3,4),(4,0),(4,2)})
      = ((m2, m1) \<notin> {(0,2),(0,3),(1,0),(1,4),(2,1),(2,3),(3,1),(3,4),(4,0),(4,2)})"
    using c1 c2 by (elim disjE) simp_all
  show ?thesis
  proof (intro conjI impI)
    show "determineWinner (Field_from m1) (Field_from m2) pk1 pk2 =
       (if m1 = m2 then PublicKey_empty
        else if (m1, m2) \<in> {(0,2),(0,3),(1,0),(1,4),(2,1),(2,3),(3,1),(3,4),(4,0),(4,2)} then pk1
        else pk2)"
      by (rule t12)
  next
    assume "pk1 \<noteq> PublicKey_empty \<and> pk2 \<noteq> PublicKey_empty \<and> pk1 \<noteq> pk2"
    then show "determineWinner (Field_from m1) (Field_from m2) pk1 pk2 = PublicKey_empty
            \<longleftrightarrow> m1 = m2"
      unfolding t12 by auto
  next
    assume "pk1 \<noteq> PublicKey_empty \<and> pk2 \<noteq> PublicKey_empty \<and> pk1 \<noteq> pk2" and "m1 \<noteq> m2"
    then show "determineWinner (Field_from m1) (Field_from m2) pk1 pk2 = pk1
        \<longleftrightarrow> (m1, m2) \<in> {(0,2),(0,3),(1,0),(1,4),(2,1),(2,3),(3,1),(3,4),(4,0),(4,2)}"
      unfolding t12 by auto
  next
    assume "pk1 \<noteq> PublicKey_empty \<and> pk2 \<noteq> PublicKey_empty \<and> pk1 \<noteq> pk2" and "m1 \<noteq> m2"
    then show "determineWinner (Field_from m1) (Field_from m2) pk1 pk2 = pk2
        \<longleftrightarrow> (m1, m2) \<notin> {(0,2),(0,3),(1,0),(1,4),(2,1),(2,3),(3,1),(3,4),(4,0),(4,2)}"
      unfolding t12 by auto
  next
    assume p: "pk1 \<noteq> PublicKey_empty \<and> pk2 \<noteq> PublicKey_empty \<and> pk1 \<noteq> pk2" and n: "m1 \<noteq> m2"
    from n have n': "m2 \<noteq> m1" by simp
    show "determineWinner (Field_from m1) (Field_from m2) pk1 pk2 = pk1
        \<longleftrightarrow> determineWinner (Field_from m2) (Field_from m1) pk1 pk2 = pk2"
      unfolding t12 t21 using p n n' swap [OF n] by auto
  qed
qed

theorem determineWinner_total_witness:
  "determineWinner (Field_from 0) (Field_from 2) (PublicKey 11 False) (PublicKey 22 True)
     = PublicKey 11 False
   \<and> determineWinner (Field_from 2) (Field_from 0) (PublicKey 11 False) (PublicKey 22 True)
     = PublicKey 22 True"
  using determineWinner_total [of 0 2 "PublicKey 11 False" "PublicKey 22 True"]
    determineWinner_total [of 2 0 "PublicKey 11 False" "PublicKey 22 True"]
  by (simp add: PublicKey_empty_def)

subsection \<open>What the methods do\<close>

lemmas prims = asserting_def assert_recording_def and_then_def js_truthy_def js_not_def js_or_def
  PublicKey_equals_def Field_equals_def UInt64_lessThanOrEqual_def UInt64_greaterThan_def
  UInt64_add_def UInt64_mul_def Provable_if_def Bool_equals_def games_get_def

lemmas examples = alice_def bob_def carol_def example_lobby_def example_super_def
  example_game_def no_games_def example_world_def PublicKey_empty_def MOVE_TIME_LIMIT_def

text \<open>
  Since \<^verbatim>\<open>a || b\<close> on two \<^verbatim>\<open>Bool\<close> objects is \<^verbatim>\<open>a\<close>, the participant assertion
  of \<^verbatim>\<open>commitMove\<close> and \<^verbatim>\<open>revealMove\<close> admits player 1 only, and since \<^verbatim>\<open>if\<close> on a
  \<^verbatim>\<open>Bool\<close> object takes the first branch, both write the slot of player 1. Since
  \<^verbatim>\<open>!b\<close> is \<^verbatim>\<open>false\<close>, \<^verbatim>\<open>revealMove\<close> never enters the conditional that resolves
  a round.
\<close>

lemma commitMove_effect:
  "commitMove height sender w gameId commitment =
    (let game = games_get w gameId in
     asserting (PublicKey_equals (gameWinner game) PublicKey_empty) GameFinished
    (asserting (PublicKey_equals sender (player1 game)) NotAParticipant
    (asserting (UInt64_lessThanOrEqual height (commitmentDeadline game)) CommitWindowClosed
    (let game2 = game\<lparr>player1Commitment := commitment, lastMoveBlockHeight := height\<rparr>
     in Inr (games_set w gameId game2, game2)))))"
  by (simp add: commitMove_def js_or_def js_truthy_def Let_def)

lemma revealMove_effect:
  "revealMove H height sender w gameId mv =
    (let game = games_get w gameId in
     asserting (PublicKey_equals (gameWinner game) PublicKey_empty) GameFinished
    (asserting (PublicKey_equals sender (player1 game)) NotAParticipant
    (asserting (UInt64_lessThanOrEqual height (revealDeadline game)) RevealWindowClosed
    (asserting (Field_equals (H [move mv, salt mv]) (player1Commitment game)) RevealMismatch
    (let game3 = game\<lparr>player1Move := mv, lastMoveBlockHeight := height\<rparr>
     in Inr (games_set w gameId game3, game3, None))))))"
  by (simp add: revealMove_def js_or_def js_truthy_def js_not_def Let_def asserting_def
      and_then_def)

text \<open>
  Since the test of \<^verbatim>\<open>gameWinner.equals(PublicKey.empty())\<close> in \<^verbatim>\<open>endGame\<close> is an
  \<^verbatim>\<open>if\<close> on a \<^verbatim>\<open>Bool\<close> object, the funds are always acquired with the shares 1 and 1
  for player 1 and player 2.
\<close>

lemma endGame_effect:
  "endGame g w =
     w\<lparr>calls := calls w @ [AcquireFunds (game_id g) (player1 g) (player2 g) 1 1 0,
                             OnLobbyEnd (game_id g) (Bool True)],
       activeGameId := (activeGameId w)(player1 g \<mapsto> 0, player2 g \<mapsto> 0)\<rparr>"
  by (simp add: endGame_def js_truthy_def Let_def acquireFunds_def onLobbyEnd_def
      activeGameId_set_def)

lemma games_endGame: "games (endGame g w) = games w"
  by (simp add: endGame_effect)

lemma games_games_set: "games (games_set w gameId g) = (games w)(gameId \<mapsto> g)"
  by (simp add: games_set_def)

text \<open>
  Whatever \<open>shouldInit\<close> wraps, \<^verbatim>\<open>initGame\<close> stores the fresh game and the fund once
  the base class has returned the id, as long as the deadlines and the fund fit 64 bits.
\<close>

lemma initGame_effect:
  assumes "super_initGame lobby shouldInit w = Inr (w0, gameId)"
    and "height + 2 * MOVE_TIME_LIMIT < 2 ^ 64" and "participationFee lobby * 2 < 2 ^ 64"
  shows "initGame super_initGame height w lobby shouldInit =
     Inr (gameFund_set (games_set w0 gameId
       \<lparr>game_id = gameId, player1 = fst (players lobby), player2 = snd (players lobby),
        player1Commitment = Field_from 0, player2Commitment = Field_from 0,
        player1Move = unset_move, player2Move = unset_move,
        player1Wins = Field_from 0, player2Wins = Field_from 0,
        commitmentDeadline = height + MOVE_TIME_LIMIT,
        revealDeadline = height + 2 * MOVE_TIME_LIMIT,
        gameWinner = PublicKey_empty, lastMoveBlockHeight = height\<rparr>) gameId
       (participationFee lobby * 2), gameId)"
  using assms
  by (simp add: initGame_def and_then_def UInt64_add_def UInt64_mul_def js_truthy_def
      MOVE_TIME_LIMIT_def Let_def)

subsection \<open>A concluded game\<close>

lemma commitMove_finished:
  "games w gameId = Some g \<Longrightarrow> gameWinner g \<noteq> PublicKey_empty \<Longrightarrow>
   commitMove height sender w gameId c = Inl GameFinished"
  by (simp add: commitMove_def prims)

lemma revealMove_finished:
  "games w gameId = Some g \<Longrightarrow> gameWinner g \<noteq> PublicKey_empty \<Longrightarrow>
   revealMove H height sender w gameId mv = Inl GameFinished"
  by (simp add: revealMove_def prims)

text \<open>
  On a concluded game \<^verbatim>\<open>claimTimeoutVictory\<close> fails as well: with "Game already
  finished" when the sum of line 232 fits 64 bits, with the range check otherwise.
\<close>

lemma claimTimeoutVictory_finished:
  "games w gameId = Some g \<Longrightarrow> gameWinner g \<noteq> PublicKey_empty \<Longrightarrow>
   claimTimeoutVictory height sender w gameId =
     (if lastMoveBlockHeight g + MOVE_TIME_LIMIT < 2 ^ 64 then Inl GameFinished
      else Inl UInt64Overflow)"
  by (simp add: claimTimeoutVictory_def prims Let_def)

lemma claimTimeoutVictory_finished_reverted:
  "games w gameId = Some g \<Longrightarrow> gameWinner g \<noteq> PublicKey_empty \<Longrightarrow>
   world_after w (claimTimeoutVictory height sender w gameId) = w"
  by (simp add: claimTimeoutVictory_finished world_after_def)

text \<open>A transaction on one game id leaves the record under any other id as it was.\<close>

lemma commitMove_frame:
  "gameId' \<noteq> gameId \<Longrightarrow>
   games (world_after w (commitMove height sender w gameId' c)) gameId = games w gameId"
  by (simp add: commitMove_def prims world_after_def Let_def games_games_set)

lemma revealMove_frame:
  "gameId' \<noteq> gameId \<Longrightarrow>
   games (world_after w (revealMove H height sender w gameId' mv)) gameId = games w gameId"
  by (simp add: revealMove_def prims world_after_def Let_def games_games_set)

lemma claimTimeoutVictory_frame:
  "gameId' \<noteq> gameId \<Longrightarrow>
   games (world_after w (claimTimeoutVictory height sender w gameId')) gameId = games w gameId"
  by (simp add: claimTimeoutVictory_def prims world_after_def Let_def games_games_set
      games_endGame)

lemma apply_tx_terminal:
  assumes "games w gameId = Some g" and "gameWinner g \<noteq> PublicKey_empty"
  shows "games (apply_tx H w t) gameId = Some g"
proof -
  obtain height sender op where t: "t = (height, sender, op)" by (cases t)
  show ?thesis
  proof (cases op)
    case (CommitMove gameId' c)
    show ?thesis
    proof (cases "gameId' = gameId")
      case True
      then show ?thesis using assms t CommitMove
        by (simp add: commitMove_finished world_after_def)
    next
      case False
      then show ?thesis using assms t CommitMove by (simp add: commitMove_frame)
    qed
  next
    case (RevealMove gameId' mv)
    show ?thesis
    proof (cases "gameId' = gameId")
      case True
      then show ?thesis using assms t RevealMove
        by (simp add: revealMove_finished world_after_def)
    next
      case False
      then show ?thesis using assms t RevealMove by (simp add: revealMove_frame)
    qed
  next
    case (ClaimTimeoutVictory gameId')
    show ?thesis
    proof (cases "gameId' = gameId")
      case True
      then show ?thesis using assms t ClaimTimeoutVictory
        by (simp add: claimTimeoutVictory_finished_reverted)
    next
      case False
      then show ?thesis using assms t ClaimTimeoutVictory
        by (simp add: claimTimeoutVictory_frame)
    qed
  qed
qed

lemma apply_txs_terminal:
  "games w gameId = Some g \<Longrightarrow> gameWinner g \<noteq> PublicKey_empty \<Longrightarrow>
   games (apply_txs H w txs) gameId = Some g"
  unfolding apply_txs_def
proof (induction txs arbitrary: w)
  case Nil
  then show ?case by simp
next
  case (Cons t txs)
  have "games (apply_tx H w t) gameId = Some g"
    using Cons.prems by (rule apply_tx_terminal)
  then show ?case using Cons.IH Cons.prems(2) by simp
qed

text \<open>
  A record with a winner only comes from a successful \<^verbatim>\<open>claimTimeoutVictory\<close>, and
  then the sum of line 232 fitted 64 bits: \<^verbatim>\<open>commitMove\<close> and \<^verbatim>\<open>revealMove\<close> store
  records without a winner, \<^verbatim>\<open>claimTimeoutVictory\<close> stores a record whose
  \<^verbatim>\<open>lastMoveBlockHeight + MOVE_TIME_LIMIT\<close> is below the block height of the claim.
\<close>

lemma commitMove_success:
  "commitMove height sender w gameId c = Inr (w', g') \<Longrightarrow>
   gameWinner g' = PublicKey_empty \<and> games w' = (games w)(gameId \<mapsto> g')"
  by (auto simp add: commitMove_effect prims Let_def games_set_def split: if_splits)

lemma revealMove_success:
  "revealMove H height sender w gameId mv = Inr (w', g', rw) \<Longrightarrow>
   gameWinner g' = PublicKey_empty \<and> games w' = (games w)(gameId \<mapsto> g')"
  by (auto simp add: revealMove_effect prims Let_def games_set_def split: if_splits)

lemma claimTimeoutVictory_success:
  "claimTimeoutVictory height sender w gameId = Inr (w', g') \<Longrightarrow>
   lastMoveBlockHeight g' + MOVE_TIME_LIMIT < height
   \<and> games w' = (games w)(gameId \<mapsto> g')"
  by (auto simp add: claimTimeoutVictory_def prims Let_def games_set_def games_endGame
      split: if_splits option.splits)

lemma apply_tx_in_range:
  assumes inv: "\<forall>gameId g. games w gameId = Some g \<longrightarrow> gameWinner g \<noteq> PublicKey_empty
      \<longrightarrow> lastMoveBlockHeight g + MOVE_TIME_LIMIT < 2 ^ 64"
    and bound: "fst t < 2 ^ 64"
  shows "\<forall>gameId g. games (apply_tx H w t) gameId = Some g \<longrightarrow> gameWinner g \<noteq> PublicKey_empty
      \<longrightarrow> lastMoveBlockHeight g + MOVE_TIME_LIMIT < 2 ^ 64"
proof (intro allI impI)
  fix gameId g
  assume a: "games (apply_tx H w t) gameId = Some g" and b: "gameWinner g \<noteq> PublicKey_empty"
  obtain height sender op where t: "t = (height, sender, op)" by (cases t)
  have h: "height < 2 ^ 64" using bound t by simp
  show "lastMoveBlockHeight g + MOVE_TIME_LIMIT < 2 ^ 64"
  proof (cases op)
    case (CommitMove gid c)
    show ?thesis
    proof (cases "commitMove height sender w gid c")
      case (Inl e)
      then have "apply_tx H w t = w" using t CommitMove by (simp add: world_after_def)
      then show ?thesis using a b inv by simp
    next
      case (Inr r)
      obtain w' g' where r: "r = (w', g')" by (cases r)
      have s: "gameWinner g' = PublicKey_empty" "games w' = (games w)(gid \<mapsto> g')"
        using commitMove_success [of height sender w gid c w' g'] Inr r by simp_all
      have "apply_tx H w t = w'" using t CommitMove Inr r by (simp add: world_after_def)
      then have "((games w)(gid \<mapsto> g')) gameId = Some g" using a s by simp
      then show ?thesis using b s inv by (auto split: if_splits)
    qed
  next
    case (RevealMove gid mv)
    show ?thesis
    proof (cases "revealMove H height sender w gid mv")
      case (Inl e)
      then have "apply_tx H w t = w" using t RevealMove by (simp add: world_after_def)
      then show ?thesis using a b inv by simp
    next
      case (Inr r)
      obtain w' g' rw where r: "r = (w', g', rw)" by (cases r)
      have s: "gameWinner g' = PublicKey_empty" "games w' = (games w)(gid \<mapsto> g')"
        using revealMove_success [of H height sender w gid mv w' g' rw] Inr r by simp_all
      have "apply_tx H w t = w'" using t RevealMove Inr r by (simp add: world_after_def)
      then have "((games w)(gid \<mapsto> g')) gameId = Some g" using a s by simp
      then show ?thesis using b s inv by (auto split: if_splits)
    qed
  next
    case (ClaimTimeoutVictory gid)
    show ?thesis
    proof (cases "claimTimeoutVictory height sender w gid")
      case (Inl e)
      then have "apply_tx H w t = w" using t ClaimTimeoutVictory by (simp add: world_after_def)
      then show ?thesis using a b inv by simp
    next
      case (Inr r)
      obtain w' g' where r: "r = (w', g')" by (cases r)
      have s: "lastMoveBlockHeight g' + MOVE_TIME_LIMIT < height"
        "games w' = (games w)(gid \<mapsto> g')"
        using claimTimeoutVictory_success [of height sender w gid w' g'] Inr r by simp_all
      have g': "lastMoveBlockHeight g' + MOVE_TIME_LIMIT < 2 ^ 64" using s(1) h by simp
      have "apply_tx H w t = w'" using t ClaimTimeoutVictory Inr r by (simp add: world_after_def)
      then have "((games w)(gid \<mapsto> g')) gameId = Some g" using a s by simp
      then show ?thesis using b g' inv by (auto split: if_splits)
    qed
  qed
qed

lemma apply_txs_in_range:
  assumes "\<forall>gameId g. games w gameId = Some g \<longrightarrow> gameWinner g \<noteq> PublicKey_empty
      \<longrightarrow> lastMoveBlockHeight g + MOVE_TIME_LIMIT < 2 ^ 64"
    and "\<forall>t \<in> set txs. fst t < 2 ^ 64"
  shows "\<forall>gameId g. games (apply_txs H w txs) gameId = Some g
      \<longrightarrow> gameWinner g \<noteq> PublicKey_empty
      \<longrightarrow> lastMoveBlockHeight g + MOVE_TIME_LIMIT < 2 ^ 64"
  using assms unfolding apply_txs_def
proof (induction txs arbitrary: w)
  case Nil
  then show ?case by simp
next
  case (Cons t txs)
  have "fst t < 2 ^ 64" using Cons.prems(2) by simp
  then have step: "\<forall>gameId g. games (apply_tx H w t) gameId = Some g
      \<longrightarrow> gameWinner g \<noteq> PublicKey_empty
      \<longrightarrow> lastMoveBlockHeight g + MOVE_TIME_LIMIT < 2 ^ 64"
    using Cons.prems(1) by (rule apply_tx_in_range [rotated])
  have rest: "\<forall>t \<in> set txs. fst t < 2 ^ 64" using Cons.prems(2) by simp
  show ?case using Cons.IH [OF step rest] by simp
qed

lemma initGame_in_range:
  assumes "super_initGame lobby shouldInit w = Inr (w0, gameId0)"
    and "\<forall>gameId g. games w0 gameId = Some g \<longrightarrow> gameWinner g \<noteq> PublicKey_empty
      \<longrightarrow> lastMoveBlockHeight g + MOVE_TIME_LIMIT < 2 ^ 64"
    and "initGame super_initGame height w lobby shouldInit = Inr (w', gameId')"
  shows "\<forall>gameId g. games w' gameId = Some g \<longrightarrow> gameWinner g \<noteq> PublicKey_empty
      \<longrightarrow> lastMoveBlockHeight g + MOVE_TIME_LIMIT < 2 ^ 64"
  using assms
  by (auto simp add: initGame_def and_then_def UInt64_add_def UInt64_mul_def js_truthy_def
      Let_def games_set_def gameFund_set_def split: if_splits)

text \<open>
  So in every state that transactions at block heights below \<open>2 ^ 64\<close> reach from a state
  whose concluded games are in that range (no game, or games fresh from
  \<^verbatim>\<open>initGame\<close>), a claim on a concluded game fails with "Game already finished".
\<close>

lemma concluded_reachable_claim_finished:
  assumes "\<forall>gameId g. games w0 gameId = Some g \<longrightarrow> gameWinner g \<noteq> PublicKey_empty
      \<longrightarrow> lastMoveBlockHeight g + MOVE_TIME_LIMIT < 2 ^ 64"
    and "\<forall>t \<in> set txs. fst t < 2 ^ 64"
    and "games (apply_txs H w0 txs) gameId = Some g" and "gameWinner g \<noteq> PublicKey_empty"
  shows "claimTimeoutVictory height sender (apply_txs H w0 txs) gameId = Inl GameFinished"
proof -
  have "lastMoveBlockHeight g + MOVE_TIME_LIMIT < 2 ^ 64"
    using apply_txs_in_range [OF assms(1) assms(2), of H] assms(3) assms(4) by blast
  then show ?thesis
    using assms(3) assms(4) by (simp add: claimTimeoutVictory_finished)
qed

text \<open>
  C4. Once the stored game has a non-empty \<^verbatim>\<open>gameWinner\<close>, \<^verbatim>\<open>commitMove\<close> and
  \<^verbatim>\<open>revealMove\<close> on it fail with "Game already finished", whoever sends them and at
  whatever height, and so does \<^verbatim>\<open>claimTimeoutVictory\<close> when
  \<^verbatim>\<open>lastMoveBlockHeight + MOVE_TIME_LIMIT\<close> of the record fits 64 bits, as it does for
  every record that the module has concluded. After any sequence of such transactions
  (on this or any other game) the stored record is the same: the winner is never changed
  and never emptied again.
\<close>

theorem concluded_game_is_terminal:
  assumes "games w gameId = Some g" and "gameWinner g \<noteq> PublicKey_empty"
  shows "commitMove height sender w gameId c = Inl GameFinished
     \<and> revealMove H height sender w gameId mv = Inl GameFinished
     \<and> (lastMoveBlockHeight g + MOVE_TIME_LIMIT < 2 ^ 64 \<longrightarrow>
          claimTimeoutVictory height sender w gameId = Inl GameFinished)
     \<and> games (apply_txs H w txs) gameId = Some g"
  using assms
  by (simp add: commitMove_finished revealMove_finished claimTimeoutVictory_finished
      apply_txs_terminal)

theorem concluded_game_is_terminal_witness:
  "commitMove 120 bob (example_world (example_game\<lparr>gameWinner := alice\<rparr>)) 1 5
     = Inl GameFinished
   \<and> revealMove sum_list 120 bob (example_world (example_game\<lparr>gameWinner := alice\<rparr>)) 1
       \<lparr>move = 3, salt = 2\<rparr> = Inl GameFinished
   \<and> claimTimeoutVictory 120 bob (example_world (example_game\<lparr>gameWinner := alice\<rparr>)) 1
     = Inl GameFinished
   \<and> games (apply_txs sum_list (example_world (example_game\<lparr>gameWinner := alice\<rparr>))
        [(160, bob, ClaimTimeoutVictory 1), (161, alice, CommitMove 1 5),
         (162, alice, RevealMove 1 \<lparr>move = 0, salt = 5\<rparr>), (163, carol, CommitMove 2 9)]) 1
     = Some (example_game\<lparr>gameWinner := alice\<rparr>)"
  using concluded_game_is_terminal [of "example_world (example_game\<lparr>gameWinner := alice\<rparr>)" 1
      "example_game\<lparr>gameWinner := alice\<rparr>" 120 bob 5 sum_list "\<lparr>move = 3, salt = 2\<rparr>"
      "[(160, bob, ClaimTimeoutVictory 1), (161, alice, CommitMove 1 5),
        (162, alice, RevealMove 1 \<lparr>move = 0, salt = 5\<rparr>), (163, carol, CommitMove 2 9)]"]
  by (simp add: examples)

subsection \<open>Claiming a timeout\<close>

text \<open>The whole result of \<^verbatim>\<open>claimTimeoutVictory\<close> on a stored game in progress.\<close>

lemma claimTimeoutVictory_in_progress:
  assumes "games w gameId = Some g" and "gameWinner g = PublicKey_empty"
  shows "claimTimeoutVictory height sender w gameId =
    (if lastMoveBlockHeight g + MOVE_TIME_LIMIT < 2 ^ 64
     then (if lastMoveBlockHeight g + MOVE_TIME_LIMIT < height
           then Inr (games_set
                  (endGame (g\<lparr>gameWinner := Provable_if (PublicKey_equals sender (player1 g))
                                              (player1 g) (player2 g)\<rparr>) w) gameId
                  (g\<lparr>gameWinner := Provable_if (PublicKey_equals sender (player1 g))
                                     (player1 g) (player2 g)\<rparr>),
                g\<lparr>gameWinner := Provable_if (PublicKey_equals sender (player1 g))
                                   (player1 g) (player2 g)\<rparr>)
           else Inl OpponentNotTimedOut)
     else Inl UInt64Overflow)"
proof -
  have get: "games_get w gameId = g" using assms(1) by (simp add: games_get_def)
  have rec1: "assert_recording (PublicKey_equals (gameWinner g) PublicKey_empty)
      GameFinished None = None"
    using assms(2) by (simp add: assert_recording_def PublicKey_equals_def)
  show ?thesis
    unfolding claimTimeoutVictory_def get Let_def rec1
    by (simp add: and_then_def UInt64_add_def assert_recording_def UInt64_greaterThan_def)
qed

text \<open>
  C3, as amended. For a stored game in progress, a sender that is one of its two players
  and a block height below \<open>2 ^ 64\<close>: \<^verbatim>\<open>claimTimeoutVictory\<close> fails with "Opponent
  has not timed out yet" exactly when \<^verbatim>\<open>lastMoveBlockHeight + MOVE_TIME_LIMIT\<close> fits 64
  bits and the block height is at most that sum; it fails with the range check of
  \<^verbatim>\<open>UInt64.add\<close> exactly when the sum does not fit 64 bits; and at a block height
  greater than the sum it succeeds, the winner of the game is the sender, \<^verbatim>\<open>endGame\<close>
  has run on that game and the game is stored.
\<close>

theorem claimTimeoutVictory_timeout:
  assumes "games w gameId = Some g"
    and "gameWinner g = PublicKey_empty"
    and "sender = player1 g \<or> sender = player2 g"
    and "height < 2 ^ 64"
  shows "(claimTimeoutVictory height sender w gameId = Inl OpponentNotTimedOut
            \<longleftrightarrow> height \<le> lastMoveBlockHeight g + MOVE_TIME_LIMIT
                \<and> lastMoveBlockHeight g + MOVE_TIME_LIMIT < 2 ^ 64)
     \<and> (claimTimeoutVictory height sender w gameId = Inl UInt64Overflow
            \<longleftrightarrow> 2 ^ 64 \<le> lastMoveBlockHeight g + MOVE_TIME_LIMIT)
     \<and> (lastMoveBlockHeight g + MOVE_TIME_LIMIT < height \<longrightarrow>
          claimTimeoutVictory height sender w gameId =
            Inr (games_set (endGame (g\<lparr>gameWinner := sender\<rparr>) w) gameId
                   (g\<lparr>gameWinner := sender\<rparr>), g\<lparr>gameWinner := sender\<rparr>))"
proof -
  define lim where "lim = lastMoveBlockHeight g + MOVE_TIME_LIMIT"
  define top :: nat where "top = 2 ^ 64"
  have winner: "Provable_if (PublicKey_equals sender (player1 g)) (player1 g) (player2 g) = sender"
    using assms(3) by (auto simp add: Provable_if_def PublicKey_equals_def)
  have eq: "claimTimeoutVictory height sender w gameId =
    (if lim < top
     then (if lim < height
           then Inr (games_set (endGame (g\<lparr>gameWinner := sender\<rparr>) w) gameId
                  (g\<lparr>gameWinner := sender\<rparr>), g\<lparr>gameWinner := sender\<rparr>)
           else Inl OpponentNotTimedOut)
     else Inl UInt64Overflow)"
    unfolding lim_def top_def
    using claimTimeoutVictory_in_progress [OF assms(1) assms(2), of height sender]
    by (simp only: winner)
  have h: "height < top" using assms(4) by (simp add: top_def)
  have "(claimTimeoutVictory height sender w gameId = Inl OpponentNotTimedOut
            \<longleftrightarrow> height \<le> lim \<and> lim < top)
     \<and> (claimTimeoutVictory height sender w gameId = Inl UInt64Overflow \<longleftrightarrow> top \<le> lim)
     \<and> (lim < height \<longrightarrow>
          claimTimeoutVictory height sender w gameId =
            Inr (games_set (endGame (g\<lparr>gameWinner := sender\<rparr>) w) gameId
                   (g\<lparr>gameWinner := sender\<rparr>), g\<lparr>gameWinner := sender\<rparr>))"
    unfolding eq using h by auto
  then show ?thesis unfolding lim_def top_def .
qed

theorem claimTimeoutVictory_timeout_witness:
  "claimTimeoutVictory 150 alice (example_world example_game) 1 = Inl OpponentNotTimedOut
   \<and> claimTimeoutVictory 151 alice (example_world example_game) 1 =
       Inr (games_set (endGame (example_game\<lparr>gameWinner := alice\<rparr>)
              (example_world example_game)) 1
              (example_game\<lparr>gameWinner := alice\<rparr>), example_game\<lparr>gameWinner := alice\<rparr>)"
  using claimTimeoutVictory_timeout [of "example_world example_game" 1 example_game alice 150]
    claimTimeoutVictory_timeout [of "example_world example_game" 1 example_game alice 151]
  by (simp add: examples)

text \<open>
  The counterexample to C3 as stated. A game begins at the block height \<open>2 ^ 64 - 101\<close>;
  player 1 commits at once and reveals at the reveal deadline \<open>2 ^ 64 - 1\<close>. The game is in
  progress and the block height \<open>2 ^ 64 - 1\<close> is below
  \<^verbatim>\<open>lastMoveBlockHeight + MOVE_TIME_LIMIT\<close>, but the claim of player 1 at that height
  fails with the range check of line 232, not with "Opponent has not timed out yet".
\<close>

theorem claimTimeoutVictory_range_check:
  "games late_world 1 =
     Some (example_game\<lparr>player1Commitment := 7, player1Move := \<lparr>move = 0, salt = 7\<rparr>,
             commitmentDeadline := 18446744073709551565,
             revealDeadline := 18446744073709551615,
             lastMoveBlockHeight := 18446744073709551615\<rparr>)
   \<and> claimTimeoutVictory 18446744073709551615 alice late_world 1 = Inl UInt64Overflow
   \<and> claimTimeoutVictory 18446744073709551615 alice late_world 1 \<noteq> Inl OpponentNotTimedOut"
  by (simp add: late_world_def apply_txs_def world_after_def initGame_def commitMove_effect
      revealMove_effect claimTimeoutVictory_def prims examples Let_def games_set_def
      gameFund_set_def Field_from_def Field_ORDER_def)

text \<open>
  C10. \<^verbatim>\<open>claimTimeoutVictory\<close> has no participant assertion: for a stored game in progress
  whose timeout has elapsed, a sender that is neither player 1 nor player 2 succeeds, and
  the winner of the game is player 2; \<^verbatim>\<open>endGame\<close> has run and the game is stored.
\<close>

theorem claimTimeoutVictory_outsider:
  assumes "games w gameId = Some g"
    and "gameWinner g = PublicKey_empty"
    and "sender \<noteq> player1 g" and "sender \<noteq> player2 g"
    and "lastMoveBlockHeight g + MOVE_TIME_LIMIT < height" and "height < 2 ^ 64"
  shows "claimTimeoutVictory height sender w gameId =
            Inr (games_set (endGame (g\<lparr>gameWinner := player2 g\<rparr>) w) gameId
                   (g\<lparr>gameWinner := player2 g\<rparr>), g\<lparr>gameWinner := player2 g\<rparr>)"
proof -
  have winner: "Provable_if (PublicKey_equals sender (player1 g)) (player1 g) (player2 g)
      = player2 g"
    using assms(3) by (simp add: Provable_if_def PublicKey_equals_def)
  have "lastMoveBlockHeight g + MOVE_TIME_LIMIT < 2 ^ 64"
    using assms(5) assms(6) by (rule less_trans)
  then show ?thesis
    using claimTimeoutVictory_in_progress [OF assms(1) assms(2), of height sender] assms(5)
    by (simp only: winner if_True)
qed

theorem claimTimeoutVictory_outsider_witness:
  "claimTimeoutVictory 151 carol (example_world example_game) 1 =
       Inr (games_set (endGame (example_game\<lparr>gameWinner := bob\<rparr>)
              (example_world example_game)) 1
              (example_game\<lparr>gameWinner := bob\<rparr>), example_game\<lparr>gameWinner := bob\<rparr>)"
  using claimTimeoutVictory_outsider [of "example_world example_game" 1 example_game carol 151]
  by (simp add: examples)

subsection \<open>Initialisation\<close>

text \<open>
  C2. \<^verbatim>\<open>initGame\<close> called with \<^verbatim>\<open>shouldInit = Bool(false)\<close> on a state without
  games, at block height 100, returns the match id 1 and has stored the fresh game under
  that id and the fund \<open>5 * 2\<close>: the test of line 315 is an \<^verbatim>\<open>if\<close> on the \<^verbatim>\<open>Bool\<close>
  object \<^verbatim>\<open>shouldInit.equals(Bool(true))\<close>, so the branch that skips the two writes is
  never taken.
\<close>

theorem initGame_shouldInit_false_writes:
  "initGame example_super 100 no_games example_lobby (Bool False) =
     Inr (\<lparr>games = [1 \<mapsto> example_game], gameFund = [1 \<mapsto> 10],
           activeGameId = Map.empty, calls = []\<rparr>, 1)"
  by (simp add: initGame_def examples and_then_def UInt64_add_def UInt64_mul_def js_truthy_def
      games_set_def gameFund_set_def Field_from_def Field_ORDER_def)

subsection \<open>Committing and revealing\<close>

text \<open>What holds for player 1: a commitment is stored, and the move that opens it is.\<close>

lemma player1_commit:
  assumes "games w gameId = Some g" and "gameWinner g = PublicKey_empty"
    and "height \<le> commitmentDeadline g"
  shows "commitMove height (player1 g) w gameId c =
     Inr (games_set w gameId (g\<lparr>player1Commitment := c, lastMoveBlockHeight := height\<rparr>),
          g\<lparr>player1Commitment := c, lastMoveBlockHeight := height\<rparr>)"
  using assms by (simp add: commitMove_effect prims Let_def)

lemma player1_reveal:
  assumes "games w gameId = Some g" and "gameWinner g = PublicKey_empty"
    and "height \<le> revealDeadline g"
  shows "revealMove H height (player1 g) w gameId mv =
     (if H [move mv, salt mv] = player1Commitment g
      then Inr (games_set w gameId (g\<lparr>player1Move := mv, lastMoveBlockHeight := height\<rparr>),
                g\<lparr>player1Move := mv, lastMoveBlockHeight := height\<rparr>, None)
      else Inl RevealMismatch)"
  using assms by (simp add: revealMove_effect prims Let_def)

text \<open>
  C5. Player 1 reveals the move 0 that she committed, in a game in progress in which
  player 2 has revealed the move 2, with either no round won or one round won by player 1.
  \<^verbatim>\<open>revealMove\<close> stores her move and the block height and nothing else: no win counter
  changes, no commitment or move is reset, the deadlines stay 150 and 200, no winner is
  set, \<^verbatim>\<open>endGame\<close> is not called and the round winner returned is \<^verbatim>\<open>null\<close>. The
  condition of line 187 is \<^verbatim>\<open>!b1 && !b2\<close> on two \<^verbatim>\<open>Bool\<close> objects, which is
  \<^verbatim>\<open>false\<close>.
\<close>

theorem revealMove_second_reveal_unresolved:
  "revealMove H 130 alice
     (example_world (example_game\<lparr>player1Commitment := H [0, 7], player2Commitment := H [2, 9],
        player2Move := \<lparr>move = 2, salt = 9\<rparr>, player1Wins := k\<rparr>)) 1 \<lparr>move = 0, salt = 7\<rparr>
   = Inr (example_world (example_game\<lparr>player1Commitment := H [0, 7],
            player2Commitment := H [2, 9], player2Move := \<lparr>move = 2, salt = 9\<rparr>,
            player1Wins := k,
            player1Move := \<lparr>move = 0, salt = 7\<rparr>, lastMoveBlockHeight := 130\<rparr>),
          example_game\<lparr>player1Commitment := H [0, 7],
            player2Commitment := H [2, 9], player2Move := \<lparr>move = 2, salt = 9\<rparr>,
            player1Wins := k,
            player1Move := \<lparr>move = 0, salt = 7\<rparr>, lastMoveBlockHeight := 130\<rparr>,
          None)"
  by (simp add: revealMove_effect examples prims games_set_def Let_def)

text \<open>
  C7. Player 2 of a game in progress commits \<^verbatim>\<open>Poseidon.hash([3, 5])\<close> before the
  commitment deadline: \<^verbatim>\<open>commitMove\<close> fails with "You are not a player in this game".
  With that commitment in her slot, her reveal of the move 3 with the salt 5 before the
  reveal deadline fails with the same message. The asserted condition of lines 141 and 171
  is \<^verbatim>\<open>a || b\<close> on two \<^verbatim>\<open>Bool\<close> objects, which is \<^verbatim>\<open>a\<close>: the sender is player 1.
\<close>

theorem player2_cannot_commit_or_reveal:
  "commitMove 101 bob (example_world example_game) 1 (H [3, 5]) = Inl NotAParticipant
   \<and> revealMove H 130 bob (example_world (example_game\<lparr>player2Commitment := H [3, 5]\<rparr>)) 1
        \<lparr>move = 3, salt = 5\<rparr> = Inl NotAParticipant"
  by (simp add: commitMove_effect revealMove_effect examples prims)

text \<open>
  C9. A commitment of player 2 before the commitment deadline, on a game in progress that
  holds an earlier commitment in her slot, fails with "You are not a player in this game",
  and two commitments of hers in a row leave the state as it was.
\<close>

theorem player2_recommit_rejected:
  "commitMove 102 bob (example_world (example_game\<lparr>player2Commitment := 77\<rparr>)) 1 88
     = Inl NotAParticipant
   \<and> apply_txs H (example_world example_game)
        [(101, bob, CommitMove 1 77), (102, bob, CommitMove 1 88)] = example_world example_game"
  by (simp add: commitMove_effect examples prims apply_txs_def world_after_def)

subsection \<open>Settlement\<close>

text \<open>
  C6. \<^verbatim>\<open>endGame\<close> on a game between the players 1 and 2 that player 2 has won calls
  \<^verbatim>\<open>acquireFunds\<close> with player 1, player 2 and the shares 1 and 1, not with the winner,
  the loser and the shares 2 and 0; it then sets the active game of both players to 0 and
  calls \<^verbatim>\<open>_onLobbyEnd\<close> with \<^verbatim>\<open>Bool(true)\<close>. The test of line 278 is an \<^verbatim>\<open>if\<close> on a
  \<^verbatim>\<open>Bool\<close> object.
\<close>

theorem endGame_winner_even_split:
  "calls (endGame (example_game\<lparr>gameWinner := bob\<rparr>)
       (example_world (example_game\<lparr>gameWinner := bob\<rparr>)))
     = [AcquireFunds 1 alice bob 1 1 0, OnLobbyEnd 1 (Bool True)]
   \<and> activeGameId (endGame (example_game\<lparr>gameWinner := bob\<rparr>)
        (example_world (example_game\<lparr>gameWinner := bob\<rparr>))) alice = Some 0
   \<and> activeGameId (endGame (example_game\<lparr>gameWinner := bob\<rparr>)
        (example_world (example_game\<lparr>gameWinner := bob\<rparr>))) bob = Some 0"
  by (simp add: endGame_effect examples)

subsection \<open>The deadlines of a new round\<close>


end
